theory Spec2Isabelle
  imports Complex_Main "HOL-Library.Word"
begin

section \<open>JavaScript values used by the upload form\<close>

text \<open>
  A thrown JavaScript value is either an \<open>Error\<close> object carrying a message or some
  other value. The source only ever asks \<open>x instanceof Error ? x.message : dflt\<close>.
\<close>

datatype js_thrown = JsError string | JsOther

definition message_or :: "string \<Rightarrow> js_thrown \<Rightarrow> string" where
  "message_or dflt x = (case x of JsError m \<Rightarrow> m | JsOther \<Rightarrow> dflt)"

type_synonym bytes = "8 word list"

text \<open>
  The location typed by the user is kept as the sequence of its UTF-16 code units, which
  is what \<open>String.prototype.trim\<close> looks at; \<open>utf16\<close> embeds a string of the Latin-1 range.
\<close>

type_synonym ustring = "16 word list"

definition utf16 :: "string \<Rightarrow> ustring" where
  "utf16 cs = map of_char cs"

text \<open>The fields of a browser \<open>File\<close> that the component reads.\<close>

record File =
  file_name :: string
  file_size :: nat
  file_type :: string
  file_lastModified :: nat

text \<open>
  \<open>ClassificationResult\<close>: the score is a JSON number. A JSON number is never NaN, so the
  comparison \<open>>\<close> of the source is the linear order on numbers; it is taken on \<open>real\<close>.
\<close>

record ClassificationResult =
  label :: string
  score :: real

record TopPrediction =
  top_label :: string
  confidence :: real

record UploadedFileInfo =
  info_name :: string
  info_size :: nat
  info_type :: string
  info_lastModified :: nat
  info_location :: ustring
  uploadTime :: string
  classification :: "ClassificationResult list"
  topPrediction :: TopPrediction

text \<open>The eight \<open>useState\<close> cells of the \<open>FileUpload\<close> component.\<close>

record component_state =
  file' :: "File option"
  location :: ustring
  isUploading :: bool
  isClassifying :: bool
  error :: "string option"
  dragActive :: bool
  uploadedFiles :: "UploadedFileInfo list"
  classificationResult :: "ClassificationResult list option"

subsection \<open>String helpers\<close>

text \<open>\<open>String.prototype.endsWith\<close>.\<close>

definition endsWith :: "string \<Rightarrow> string \<Rightarrow> bool" where
  "endsWith s suf =
     (length suf \<le> length s \<and> drop (length s - length suf) s = suf)"

text \<open>
  The code units that \<open>String.prototype.trim\<close> strips: ECMAScript WhiteSpace (TAB, VT, FF,
  U+FEFF and the space separators U+0020, U+00A0, U+1680, U+2000 to U+200A, U+202F,
  U+205F, U+3000) and LineTerminator (LF, CR, U+2028, U+2029).
\<close>

definition is_ws :: "16 word \<Rightarrow> bool" where
  "is_ws c =
     (c \<in> set [0x0009, 0x000A, 0x000B, 0x000C, 0x000D, 0x0020, 0x00A0, 0x1680,
                0x2028, 0x2029, 0x202F, 0x205F, 0x3000, 0xFEFF]
      \<or> (0x2000 \<le> c \<and> c \<le> 0x200A))"

definition trim :: "ustring \<Rightarrow> ustring" where
  "trim s = rev (dropWhile is_ws (rev (dropWhile is_ws s)))"

text \<open>Decimal rendering of a number inside a template literal.\<close>

definition digit_char :: "nat \<Rightarrow> char" where
  "digit_char d = char_of (48 + d)"

function show_nat :: "nat \<Rightarrow> string" where
  "show_nat n =
     (if n < 10 then [digit_char n] else show_nat (n div 10) @ [digit_char (n mod 10)])"
  by pat_completeness auto
termination
  by (relation "measure id") auto

declare show_nat.simps [simp del]

section \<open>The outside world of the component\<close>

record request =
  url :: string
  http_method :: string
  headers :: "(string \<times> string) list"
  body :: bytes

text \<open>
  A received HTTP response. \<open>resp_text\<close> is the outcome of \<open>response.text()\<close>, which rejects
  when the body cannot be read, and \<open>resp_json\<close> is the outcome of \<open>response.json()\<close>, which
  also rejects when the body is not JSON. \<open>response.ok\<close> is true for the statuses 200 to 299.
\<close>

record response =
  status :: nat
  statusText :: string
  resp_text :: "js_thrown + string"
  resp_json :: "js_thrown + ClassificationResult list"

definition ok :: "response \<Rightarrow> bool" where
  "ok r = (200 \<le> status r \<and> status r \<le> 299)"

text \<open>
  Everything the component reads from outside its own state: the build-time constant
  \<open>HF_API_TOKEN\<close> (\<open>None\<close> when the variable is undefined), the outcome of reading the
  file's bytes, the network, the \<open>onUpload\<close> property, the clock, and whether the
  document has the element \<open>file-upload\<close>.
\<close>

record env =
  HF_API_TOKEN :: "string option"
  arrayBuffer :: "File \<Rightarrow> js_thrown + bytes"
  fetch :: "request \<Rightarrow> js_thrown + response"
  onUpload :: "File \<Rightarrow> ustring \<Rightarrow> js_thrown + unit"
  toLocaleString :: string
  hasFileInput :: bool

definition ENDPOINT_URL :: string where
  "ENDPOINT_URL = ''https://uqkktcn5dm2ucj8d.us-east-1.aws.endpoints.huggingface.cloud''"

text \<open>
  The effects of a handler, in program order. A \<open>Begin\<close> event is the call of an
  asynchronous operation and the matching \<open>Settled\<close> event is the point where the
  awaiting code resumes (the promise has resolved or rejected).
\<close>

datatype event =
    EnvRead string
  | ClassifyBegin File
  | ArrayBufferRead File
  | Fetch request "js_thrown + response"
  | ResponseText
  | ResponseJson
  | ConsoleError string
  | ClassifySettled
  | OnUploadBegin File ustring
  | OnUploadSettled
  | FileInputCleared

text \<open>
  The module-level constant \<open>HF_API_TOKEN = import.meta.env.VITE_HF_API_TOKEN\<close>, evaluated
  when the module is loaded; its value is the field \<open>HF_API_TOKEN\<close> of the environment.
\<close>

definition module_init :: "(string \<Rightarrow> string option) \<Rightarrow> string option \<times> event list" where
  "module_init import_meta_env =
     (import_meta_env ''VITE_HF_API_TOKEN'', [EnvRead ''VITE_HF_API_TOKEN''])"

section \<open>File selection\<close>

definition is_mp3 :: "File \<Rightarrow> bool" where
  "is_mp3 f = (file_type f = ''audio/mpeg'' \<or> endsWith (file_name f) ''.mp3'')"

text \<open>The branch shared by \<open>handleDrop\<close> and \<open>handleFileChange\<close> once a first file exists.\<close>

definition offer :: "File \<Rightarrow> component_state \<Rightarrow> component_state" where
  "offer f s =
     (if is_mp3 f
      then s\<lparr>file' := Some f, error := None, classificationResult := None\<rparr>
      else s\<lparr>error := Some ''Please upload an MP3 file''\<rparr>)"

text \<open>\<open>files && files[0]\<close>: the first file of a file list that may be null or empty.\<close>

definition first_file :: "File list option \<Rightarrow> File option" where
  "first_file fs = (case fs of None \<Rightarrow> None | Some [] \<Rightarrow> None | Some (f # _) \<Rightarrow> Some f)"

definition handleDrop :: "File list option \<Rightarrow> component_state \<Rightarrow> component_state" where
  "handleDrop fs s =
     (let s1 = s\<lparr>dragActive := False\<rparr>
      in case first_file fs of None \<Rightarrow> s1 | Some droppedFile \<Rightarrow> offer droppedFile s1)"

definition handleFileChange :: "File list option \<Rightarrow> component_state \<Rightarrow> component_state" where
  "handleFileChange fs s =
     (case first_file fs of None \<Rightarrow> s | Some selectedFile \<Rightarrow> offer selectedFile s)"

section \<open>Classification\<close>

text \<open>\<open>!HF_API_TOKEN\<close>: the token is undefined or the empty string.\<close>

definition token_missing :: "string option \<Rightarrow> bool" where
  "token_missing t = (case t of None \<Rightarrow> True | Some v \<Rightarrow> v = [])"

text \<open>A possibly undefined string inside a template literal.\<close>

definition interpolate :: "string option \<Rightarrow> string" where
  "interpolate t = (case t of None \<Rightarrow> ''undefined'' | Some v \<Rightarrow> v)"

definition classify_request :: "string option \<Rightarrow> bytes \<Rightarrow> request" where
  "classify_request t buf =
     \<lparr>url = ENDPOINT_URL, http_method = ''POST'',
      headers = [(''Authorization'', ''Bearer '' @ interpolate t),
                 (''Content-Type'', ''audio/mpeg'')],
      body = buf\<rparr>"

text \<open>The part of \<open>classifyAudio\<close> after the response has arrived.\<close>

definition classify_response ::
  "response \<Rightarrow> component_state
     \<Rightarrow> (js_thrown + ClassificationResult list) \<times> component_state \<times> event list" where
  "classify_response r s =
     (if \<not> ok r then
        (case resp_text r of
           Inl x \<Rightarrow> (Inl x, s, [ResponseText])
         | Inr errorText \<Rightarrow>
             (Inl (JsError
                (if status r = 503
                 then ''Model is loading, please wait a moment and try again''
                 else ''Endpoint error: '' @ show_nat (status r) @ '' - '' @ statusText r)),
              s, [ResponseText, ConsoleError ''API Error Response:'']))
      else
        (case resp_json r of
           Inl x \<Rightarrow> (Inl x, s, [ResponseJson])
         | Inr result \<Rightarrow>
             (Inr result, s\<lparr>classificationResult := Some result\<rparr>, [ResponseJson])))"

text \<open>The body of the \<open>try\<close> block of \<open>classifyAudio\<close>.\<close>

definition classify_try ::
  "env \<Rightarrow> File \<Rightarrow> component_state
     \<Rightarrow> (js_thrown + ClassificationResult list) \<times> component_state \<times> event list" where
  "classify_try ev audioFile s =
     (if token_missing (HF_API_TOKEN ev)
      then (Inl (JsError ''Hugging Face API token is not configured''), s, [])
      else
        (case arrayBuffer ev audioFile of
           Inl x \<Rightarrow> (Inl x, s, [ArrayBufferRead audioFile])
         | Inr buf \<Rightarrow>
             (let req = classify_request (HF_API_TOKEN ev) buf
              in case fetch ev req of
                   Inl x \<Rightarrow> (Inl x, s, [ArrayBufferRead audioFile, Fetch req (Inl x)])
                 | Inr r \<Rightarrow>
                     (case classify_response r s of
                        (res, s', tr) \<Rightarrow>
                          (res, s', [ArrayBufferRead audioFile, Fetch req (Inr r)] @ tr)))))"

text \<open>\<open>classifyAudio\<close>: the \<open>try\<close> block with its \<open>catch\<close> (log and rethrow) and \<open>finally\<close>.\<close>

definition classifyAudio ::
  "env \<Rightarrow> File \<Rightarrow> component_state
     \<Rightarrow> (js_thrown + ClassificationResult list) \<times> component_state \<times> event list" where
  "classifyAudio ev audioFile s =
     (case classify_try ev audioFile (s\<lparr>isClassifying := True, classificationResult := None\<rparr>) of
        (Inr result, s', tr) \<Rightarrow>
          (Inr result, s'\<lparr>isClassifying := False\<rparr>,
           [ClassifyBegin audioFile] @ tr @ [ClassifySettled])
      | (Inl x, s', tr) \<Rightarrow>
          (Inl (JsError (''Classification failed: '' @ message_or ''Unknown error'' x)),
           s'\<lparr>isClassifying := False\<rparr>,
           [ClassifyBegin audioFile] @ tr @ [ConsoleError ''Classification error:'', ClassifySettled]))"

section \<open>Submission\<close>

text \<open>
  \<open>Array.prototype.reduce\<close> without an initial value: the first element starts the
  accumulator, and an empty array is a TypeError.
\<close>

fun reduce :: "('a \<Rightarrow> 'a \<Rightarrow> 'a) \<Rightarrow> 'a list \<Rightarrow> js_thrown + 'a" where
  "reduce f [] = Inl (JsError ''Reduce of empty array with no initial value'')"
| "reduce f (x # xs) = Inr (foldl f x xs)"

definition pick :: "ClassificationResult \<Rightarrow> ClassificationResult \<Rightarrow> ClassificationResult" where
  "pick mx current = (if score current > score mx then current else mx)"

definition unknownPrediction :: TopPrediction where
  "unknownPrediction = \<lparr>top_label = ''unknown'', confidence = 0\<rparr>"

text \<open>The lines "Find top prediction" of \<open>handleSubmit\<close>.\<close>

definition findTop :: "ClassificationResult list \<Rightarrow> js_thrown + TopPrediction" where
  "findTop c =
     (if length c > 0
      then (case reduce pick c of
              Inl x \<Rightarrow> Inl x
            | Inr top1 \<Rightarrow> Inr \<lparr>top_label = label top1, confidence = score top1\<rparr>)
      else Inr unknownPrediction)"

text \<open>
  The inner \<open>try\<close>/\<open>catch\<close> of \<open>handleSubmit\<close>: it yields the two local variables
  \<open>classification\<close> and \<open>topPrediction\<close>, the state and the effects.
\<close>

definition classifyStep ::
  "env \<Rightarrow> File \<Rightarrow> component_state
     \<Rightarrow> ClassificationResult list \<times> TopPrediction \<times> component_state \<times> event list" where
  "classifyStep ev f s =
     (let failed = (\<lambda>c x s' tr.
            (c, unknownPrediction,
             s'\<lparr>error := Some (''Audio classification failed: '' @ message_or ''Unknown error'' x)\<rparr>,
             tr @ [ConsoleError ''Classification failed:'']))
      in case classifyAudio ev f s of
           (Inl x, s', tr) \<Rightarrow> failed [] x s' tr
         | (Inr c, s', tr) \<Rightarrow>
             (case findTop c of
                Inl x \<Rightarrow> failed c x s' tr
              | Inr tp \<Rightarrow> (c, tp, s', tr)))"

definition fileInfo ::
  "env \<Rightarrow> File \<Rightarrow> ustring \<Rightarrow> ClassificationResult list \<Rightarrow> TopPrediction \<Rightarrow> UploadedFileInfo" where
  "fileInfo ev f loc c tp =
     \<lparr>info_name = file_name f, info_size = file_size f, info_type = file_type f,
      info_lastModified = file_lastModified f, info_location = loc,
      uploadTime = toLocaleString ev, classification = c, topPrediction = tp\<rparr>"

definition handleSubmit :: "env \<Rightarrow> component_state \<Rightarrow> component_state \<times> event list" where
  "handleSubmit ev s =
     (case file' s of
        None \<Rightarrow> (s\<lparr>error := Some ''Please select a file to upload''\<rparr>, [])
      | Some f \<Rightarrow>
          if trim (location s) = [] then (s\<lparr>error := Some ''Please enter a location''\<rparr>, [])
          else
            (case classifyStep ev f (s\<lparr>isUploading := True, error := None\<rparr>) of
               (c, tp, s1, tr) \<Rightarrow>
                 (case onUpload ev f (location s) of
                    Inl x \<Rightarrow>
                      (s1\<lparr>error := Some (message_or ''Failed to upload file'' x),
                          isUploading := False\<rparr>,
                       tr @ [OnUploadBegin f (location s), OnUploadSettled])
                  | Inr _ \<Rightarrow>
                      (s1\<lparr>uploadedFiles := fileInfo ev f (location s) c tp # uploadedFiles s1,
                          file' := None, location := [], classificationResult := None,
                          isUploading := False\<rparr>,
                       tr @ [OnUploadBegin f (location s), OnUploadSettled]
                          @ (if hasFileInput ev then [FileInputCleared] else [])))))"

section \<open>The Express server\<close>

datatype verb = GET | HEAD | POST | OtherVerb string

text \<open>
  A request as Express hands it to a route: \<open>req_path\<close> is the path of the URL without the
  query, and \<open>req_validators_fresh\<close> is the verdict of the freshness test on the
  request's conditional headers (If-None-Match, If-Modified-Since) against the response
  about to be sent.
\<close>

record http_request =
  req_verb :: verb
  req_path :: string
  req_headers :: "(string \<times> string) list"
  req_body :: bytes
  req_validators_fresh :: bool

datatype payload = NoBody | SendText string | SendJson "(string \<times> string) list"

record http_response =
  res_status :: nat
  res_payload :: payload

text \<open>\<open>req.fresh\<close>: only a GET or HEAD with a 2xx or 304 status can be fresh.\<close>

definition req_fresh :: "http_request \<Rightarrow> nat \<Rightarrow> bool" where
  "req_fresh req st =
     ((req_verb req = GET \<or> req_verb req = HEAD)
      \<and> ((200 \<le> st \<and> st < 300) \<or> st = 304)
      \<and> req_validators_fresh req)"

text \<open>
  \<open>res.send\<close> (also reached through \<open>res.json\<close>): a fresh request is answered 304 without a
  body, and a HEAD request never gets a body.
\<close>

definition res_send :: "http_request \<Rightarrow> nat \<Rightarrow> payload \<Rightarrow> http_response" where
  "res_send req st p =
     (if req_fresh req st then \<lparr>res_status = 304, res_payload = NoBody\<rparr>
      else \<lparr>res_status = st, res_payload = (if req_verb req = HEAD then NoBody else p)\<rparr>)"

text \<open>The two route handlers; \<open>res.send\<close> without \<open>res.status\<close> starts from status 200.\<close>

definition get_root :: "http_request \<Rightarrow> http_response" where
  "get_root req = res_send req 200 (SendText ''Hello World!'')"

definition post_upload :: "http_request \<Rightarrow> http_response" where
  "post_upload req =
     res_send req 201 (SendJson [(''message'', ''File uploaded successfully'')])"

text \<open>
  Route matching of the router with its default options: letter case is ignored and one
  trailing slash is optional.
\<close>

definition lower :: "char \<Rightarrow> char" where
  "lower c =
     (case map_of (zip ''ABCDEFGHIJKLMNOPQRSTUVWXYZ'' ''abcdefghijklmnopqrstuvwxyz'') c of
        Some d \<Rightarrow> d
      | None \<Rightarrow> c)"

definition strip_slash :: "string \<Rightarrow> string" where
  "strip_slash r = (if r \<noteq> [] \<and> last r = CHR ''/'' then butlast r else r)"

definition route_matches :: "string \<Rightarrow> string \<Rightarrow> bool" where
  "route_matches route p =
     (map lower p = map lower (strip_slash route)
      \<or> map lower p = map lower (strip_slash route) @ ''/'')"

text \<open>
  The routes in registration order; a route registered with \<open>app.get\<close> also serves HEAD.
  \<open>None\<close> when no handler of the file runs.
\<close>

definition app :: "http_request \<Rightarrow> http_response option" where
  "app req =
     (if (req_verb req = GET \<or> req_verb req = HEAD) \<and> route_matches ''/'' (req_path req)
      then Some (get_root req)
      else if req_verb req = POST \<and> route_matches ''/upload'' (req_path req)
      then Some (post_upload req)
      else None)"

text \<open>
  What the start of the server reads from outside: \<open>process.env\<close> as it is after
  \<open>dotenv.config()\<close>, and whether \<open>app.listen\<close> gets the server listening on the port it is
  given (\<open>Inl\<close> when it throws or fails, in which case its callback never runs).
\<close>

record node_world =
  process_env :: "string \<Rightarrow> string option"
  listen :: "string option \<Rightarrow> js_thrown + unit"

datatype startup_event =
    DotenvConfig
  | ProcessEnvRead string
  | Listen "string option"
  | ConsoleLog string
  | ConnectDB

text \<open>The top level of \<open>index.js\<close>: the outcome of starting and the effects in order.\<close>

definition index_js :: "node_world \<Rightarrow> (js_thrown + unit) \<times> startup_event list" where
  "index_js nd =
     (let PORT = process_env nd ''PORT''
      in case listen nd PORT of
           Inl x \<Rightarrow> (Inl x, [DotenvConfig, ProcessEnvRead ''PORT'', Listen PORT])
         | Inr _ \<Rightarrow>
             (Inr (),
              [DotenvConfig, ProcessEnvRead ''PORT'', Listen PORT,
               ConsoleLog (''Server running on port '' @ interpolate PORT), ConnectDB]))"

section \<open>Reading effect traces\<close>

fun is_fetch :: "event \<Rightarrow> bool" where
  "is_fetch (Fetch _ _) = True"
| "is_fetch _ = False"

fun opens :: "event \<Rightarrow> bool" where
  "opens (ClassifyBegin _) = True"
| "opens (OnUploadBegin _ _) = True"
| "opens _ = False"

fun settles :: "event \<Rightarrow> bool" where
  "settles ClassifySettled = True"
| "settles OnUploadSettled = True"
| "settles _ = False"

text \<open>The number of asynchronous operations begun and not yet settled after a trace.\<close>

fun pending :: "event list \<Rightarrow> int" where
  "pending [] = 0"
| "pending (e # es) = (if opens e then 1 else 0) - (if settles e then 1 else 0) + pending es"

fun is_env_read :: "event \<Rightarrow> bool" where
  "is_env_read (EnvRead _) = True"
| "is_env_read _ = False"

fun is_process_env_read :: "startup_event \<Rightarrow> bool" where
  "is_process_env_read (ProcessEnvRead _) = True"
| "is_process_env_read _ = False"

text \<open>The effects that \<open>classifyAudio\<close> has between its call and its settling.\<close>

fun classify_effect :: "event \<Rightarrow> bool" where
  "classify_effect (ArrayBufferRead _) = True"
| "classify_effect (Fetch _ _) = True"
| "classify_effect ResponseText = True"
| "classify_effect ResponseJson = True"
| "classify_effect (ConsoleError _) = True"
| "classify_effect _ = False"

fun is_console :: "event \<Rightarrow> bool" where
  "is_console (ConsoleError _) = True"
| "is_console _ = False"

text \<open>Events that neither begin nor settle an asynchronous operation.\<close>

definition quiet :: "event list \<Rightarrow> bool" where
  "quiet es = list_all (\<lambda>e. \<not> opens e \<and> \<not> settles e) es"

section \<open>Sample inputs\<close>

definition song :: File where
  "song = \<lparr>file_name = ''street.mp3'', file_size = 2048, file_type = ''audio/mpeg'',
           file_lastModified = 1700000000\<rparr>"

definition memo :: File where
  "memo = \<lparr>file_name = ''notes.txt'', file_size = 12, file_type = ''text/plain'',
           file_lastModified = 1700000001\<rparr>"

definition older_entry :: UploadedFileInfo where
  "older_entry =
     \<lparr>info_name = ''park.mp3'', info_size = 100, info_type = ''audio/mpeg'',
      info_lastModified = 1600000000, info_location = utf16 ''Park'', uploadTime = ''yesterday'',
      classification = [], topPrediction = unknownPrediction\<rparr>"

text \<open>The initial values of the \<open>useState\<close> cells.\<close>

definition initial_state :: component_state where
  "initial_state =
     \<lparr>file' = None, location = [], isUploading = False, isClassifying = False,
      error = None, dragActive = False, uploadedFiles = [], classificationResult = None\<rparr>"

definition ready_state :: component_state where
  "ready_state =
     initial_state\<lparr>file' := Some song, location := utf16 ''5th Street'', dragActive := True,
                   uploadedFiles := [older_entry]\<rparr>"

definition blank_state :: component_state where
  "blank_state = ready_state\<lparr>location := [0x00A0, 0x0020, 0x3000, 0x0009]\<rparr>"

definition scores :: "ClassificationResult list" where
  "scores =
     [\<lparr>label = ''low'', score = 1 / 10\<rparr>, \<lparr>label = ''high'', score = 6 / 10\<rparr>,
      \<lparr>label = ''moderate'', score = 6 / 10\<rparr>, \<lparr>label = ''very_high'', score = 2 / 10\<rparr>]"

definition response_200 :: response where
  "response_200 = \<lparr>status = 200, statusText = ''OK'', resp_text = Inr ''[...]'',
                    resp_json = Inr scores\<rparr>"

definition response_503 :: response where
  "response_503 =
     \<lparr>status = 503, statusText = ''Service Unavailable'', resp_text = Inr ''loading'',
      resp_json = Inl (JsError ''Unexpected token'')\<rparr>"

definition env_ok :: env where
  "env_ok =
     \<lparr>HF_API_TOKEN = Some ''hf_abc'', arrayBuffer = (\<lambda>_. Inr [73, 68, 51]),
      fetch = (\<lambda>_. Inr response_200), onUpload = (\<lambda>_ _. Inr ()),
      toLocaleString = ''11/3/2026, 10:00:00 AM'', hasFileInput = True\<rparr>"

definition env_503 :: env where
  "env_503 = env_ok\<lparr>fetch := (\<lambda>_. Inr response_503)\<rparr>"

definition response_503_unreadable :: response where
  "response_503_unreadable = response_503\<lparr>resp_text := Inl (JsError ''body stream failed'')\<rparr>"

definition env_503_unreadable :: env where
  "env_503_unreadable = env_ok\<lparr>fetch := (\<lambda>_. Inr response_503_unreadable)\<rparr>"

definition env_no_token :: env where
  "env_no_token = env_ok\<lparr>HF_API_TOKEN := None\<rparr>"

definition env_upload_rejects :: env where
  "env_upload_rejects = env_no_token\<lparr>onUpload := (\<lambda>_ _. Inl (JsError ''offline''))\<rparr>"

definition import_meta_env_empty :: "string \<Rightarrow> string option" where
  "import_meta_env_empty = (\<lambda>_. None)"

definition conditional_get :: http_request where
  "conditional_get =
     \<lparr>req_verb = GET, req_path = ''/'', req_headers = [(''If-None-Match'', ''*'')],
      req_body = [], req_validators_fresh = True\<rparr>"

definition plain_get :: http_request where
  "plain_get = conditional_get\<lparr>req_headers := [], req_validators_fresh := False\<rparr>"

definition upload_post :: http_request where
  "upload_post =
     \<lparr>req_verb = POST, req_path = ''/Upload/'', req_headers = [(''If-None-Match'', ''*'')],
      req_body = [1, 2, 3], req_validators_fresh = True\<rparr>"

text \<open>A server world whose \<open>app.listen\<close> refuses the port 99999 and accepts the others.\<close>

definition node_bad_port :: node_world where
  "node_bad_port =
     \<lparr>process_env = (\<lambda>k. if k = ''PORT'' then Some ''99999'' else None),
      listen = (\<lambda>p. if p = Some ''99999'' then Inl (JsError ''ERR_SOCKET_BAD_PORT'')
                     else Inr ())\<rparr>"

definition node_no_port :: node_world where
  "node_no_port = node_bad_port\<lparr>process_env := (\<lambda>_. None)\<rparr>"

section \<open>Helper lemmas\<close>

lemmas sample_defs =
  song_def memo_def older_entry_def initial_state_def ready_state_def blank_state_def
  scores_def response_200_def response_503_def response_503_unreadable_def env_ok_def
  env_503_def env_503_unreadable_def env_no_token_def env_upload_rejects_def utf16_def

lemmas model_defs =
  handleSubmit_def classifyStep_def classifyAudio_def classify_try_def classify_response_def
  classify_request_def token_missing_def interpolate_def findTop_def pick_def
  unknownPrediction_def fileInfo_def message_or_def ok_def trim_def is_ws_def Let_def

lemmas server_defs =
  app_def get_root_def post_upload_def res_send_def req_fresh_def route_matches_def
  strip_slash_def lower_def

subsection \<open>Strings\<close>

lemma trim_blank_iff: "trim s = [] \<longleftrightarrow> list_all is_ws s"
proof
  assume "trim s = []"
  then have "dropWhile is_ws (rev (dropWhile is_ws s)) = []"
    by (simp add: trim_def)
  then have "\<forall>c \<in> set (dropWhile is_ws s). is_ws c"
    by (simp add: dropWhile_eq_Nil_conv)
  then have "dropWhile is_ws s = []"
    using hd_dropWhile [of is_ws s] by (cases "dropWhile is_ws s") auto
  then show "list_all is_ws s"
    by (simp add: dropWhile_eq_Nil_conv list_all_iff)
next
  assume "list_all is_ws s"
  then have "dropWhile is_ws s = []"
    by (simp add: dropWhile_eq_Nil_conv list_all_iff)
  then show "trim s = []"
    unfolding trim_def by (simp only: rev.simps dropWhile.simps)
qed

lemma endsWith_iff: "endsWith s suf \<longleftrightarrow> (\<exists>pre. s = pre @ suf)"
proof
  assume "endsWith s suf"
  then have "s = take (length s - length suf) s @ suf"
    by (metis append_take_drop_id endsWith_def)
  then show "\<exists>pre. s = pre @ suf" ..
next
  assume "\<exists>pre. s = pre @ suf"
  then show "endsWith s suf" by (auto simp: endsWith_def)
qed

subsection \<open>What classification does to the state\<close>

lemma classify_response_state:
  "classify_response r s = (res, s', tr) \<Longrightarrow>
     s' = s\<lparr>classificationResult :=
              (case res of Inl _ \<Rightarrow> classificationResult s | Inr c \<Rightarrow> Some c)\<rparr>"
  by (auto simp: classify_response_def split: if_splits sum.splits)

lemma classify_try_state:
  "classify_try ev f s = (res, s', tr) \<Longrightarrow>
     s' = s\<lparr>classificationResult :=
              (case res of Inl _ \<Rightarrow> classificationResult s | Inr c \<Rightarrow> Some c)\<rparr>"
  by (auto simp: classify_try_def Let_def split: if_splits sum.splits prod.splits
           dest: classify_response_state)

lemma classifyAudio_state:
  "classifyAudio ev f s = (res, s', tr) \<Longrightarrow>
     s' = s\<lparr>isClassifying := False,
            classificationResult := (case res of Inl _ \<Rightarrow> None | Inr c \<Rightarrow> Some c)\<rparr>"
  by (auto simp: classifyAudio_def split: prod.splits sum.splits dest!: classify_try_state)

lemma findTop_cases:
  "findTop c = Inr unknownPrediction \<or>
   (\<exists>m. c \<noteq> [] \<and> reduce pick c = Inr m \<and> findTop c = Inr \<lparr>top_label = label m, confidence = score m\<rparr>)"
  by (cases c) (auto simp: findTop_def)

lemma findTop_total: "\<exists>tp. findTop c = Inr tp"
  using findTop_cases [of c] by auto

lemma classifyStep_state:
  "classifyStep ev f s = (c, tp, s', tr) \<Longrightarrow>
     \<exists>e cr. s' = s\<lparr>isClassifying := False, classificationResult := cr, error := e\<rparr>"
proof -
  assume a: "classifyStep ev f s = (c, tp, s', tr)"
  obtain res s1 tr1 where ca: "classifyAudio ev f s = (res, s1, tr1)"
    by (cases "classifyAudio ev f s") auto
  from classifyAudio_state [OF ca] obtain cr where
    s1: "s1 = s\<lparr>isClassifying := False, classificationResult := cr\<rparr>" by blast
  show ?thesis
  proof (cases res)
    case (Inl x)
    with a ca s1 show ?thesis
      by (auto simp: classifyStep_def Let_def intro!: exI)
  next
    case (Inr cs)
    obtain t where "findTop cs = Inr t" using findTop_total by blast
    with Inr a ca s1 have "s' = s\<lparr>isClassifying := False, classificationResult := cr, error := error s\<rparr>"
      by (auto simp: classifyStep_def Let_def)
    then show ?thesis by blast
  qed
qed

lemma handleSubmit_success:
  assumes "file' s = Some f" and "trim (location s) \<noteq> []"
    and "onUpload ev f (location s) = Inr u"
    and "classifyStep ev f (s\<lparr>isUploading := True, error := None\<rparr>) = (c, tp, s1, tr)"
  shows "handleSubmit ev s =
      (s1\<lparr>uploadedFiles := fileInfo ev f (location s) c tp # uploadedFiles s1,
          file' := None, location := [], classificationResult := None,
          isUploading := False\<rparr>,
       tr @ [OnUploadBegin f (location s), OnUploadSettled]
          @ (if hasFileInput ev then [FileInputCleared] else []))"
  using assms by (simp add: handleSubmit_def)

subsection \<open>The scan for the top prediction\<close>

lemma foldl_pick_first_max:
  "\<exists>i<length (x # xs). foldl pick x xs = (x # xs) ! i
      \<and> (\<forall>y \<in> set (x # xs). score y \<le> score ((x # xs) ! i))
      \<and> (\<forall>j<i. score ((x # xs) ! j) < score ((x # xs) ! i))"
proof (induction xs rule: rev_induct)
  case Nil
  show ?case by simp
next
  case (snoc y ys)
  then obtain i where i: "i < length (x # ys)" "foldl pick x ys = (x # ys) ! i"
    and mx: "\<forall>z \<in> set (x # ys). score z \<le> score ((x # ys) ! i)"
    and fst: "\<forall>j<i. score ((x # ys) ! j) < score ((x # ys) ! i)"
    by blast
  let ?zs = "x # ys @ [y]"
  have pre: "\<And>k. k < length (x # ys) \<Longrightarrow> ?zs ! k = (x # ys) ! k"
    by (metis append_Cons nth_append)
  show ?case
  proof (cases "score y > score ((x # ys) ! i)")
    case True
    have last: "?zs ! length (x # ys) = y"
      by (metis append_Cons nth_append_length)
    have "foldl pick x (ys @ [y]) = y" using True i by (simp add: pick_def)
    moreover have "\<forall>z \<in> set ?zs. score z \<le> score y" using True mx by fastforce
    moreover have "\<forall>j<length (x # ys). score (?zs ! j) < score y"
    proof (intro allI impI)
      fix j assume j: "j < length (x # ys)"
      then have "(x # ys) ! j \<in> set (x # ys)" by (rule nth_mem)
      with mx True have "score ((x # ys) ! j) < score y" by fastforce
      with pre [OF j] show "score (?zs ! j) < score y" by simp
    qed
    ultimately show ?thesis
      using last by (intro exI [of _ "length (x # ys)"]) simp
  next
    case False
    have "foldl pick x (ys @ [y]) = (x # ys) ! i" using False i by (simp add: pick_def)
    then have a: "foldl pick x (ys @ [y]) = ?zs ! i" using pre [OF i(1)] by simp
    have b: "\<forall>z \<in> set ?zs. score z \<le> score (?zs ! i)"
      using False mx pre [OF i(1)] by auto
    have c: "\<forall>j<i. score (?zs ! j) < score (?zs ! i)"
    proof (intro allI impI)
      fix j assume j: "j < i"
      then have "j < length (x # ys)" using i(1) by simp
      from pre [OF this] pre [OF i(1)] fst j show "score (?zs ! j) < score (?zs ! i)" by simp
    qed
    from a b c i(1) show ?thesis
      by (intro exI [of _ i]) simp
  qed
qed

lemma findTop_first_max:
  assumes "c \<noteq> []"
  shows "\<exists>i<length c. findTop c = Inr \<lparr>top_label = label (c ! i), confidence = score (c ! i)\<rparr>
      \<and> (\<forall>y \<in> set c. score y \<le> score (c ! i))
      \<and> (\<forall>j<i. score (c ! j) < score (c ! i))"
proof -
  from assms obtain x xs where c: "c = x # xs" by (cases c) auto
  from foldl_pick_first_max [of x xs] obtain i where
    "i < length (x # xs)" "foldl pick x xs = (x # xs) ! i"
    "\<forall>y \<in> set (x # xs). score y \<le> score ((x # xs) ! i)"
    "\<forall>j<i. score ((x # xs) ! j) < score ((x # xs) ! i)" by blast
  then show ?thesis unfolding c
    by (intro exI [of _ i]) (simp add: findTop_def)
qed

subsection \<open>Shape of the effect traces\<close>

lemma classify_try_fetch:
  assumes "classify_try ev f s = (res, s', tr)"
  shows "length (filter is_fetch tr) \<le> 1
     \<and> (\<forall>req r. Fetch req (Inr r) \<in> set tr \<and> status r = 503 \<longrightarrow>
           (case resp_text r of
              Inl x \<Rightarrow> res = Inl x
            | Inr _ \<Rightarrow>
                res = Inl (JsError ''Model is loading, please wait a moment and try again'')))"
  using assms
  by (auto simp: classify_try_def classify_response_def ok_def Let_def
           split: if_splits sum.splits prod.splits)

lemma pending_append: "pending (xs @ ys) = pending xs + pending ys"
  by (induction xs) auto

lemma pending_quiet_take: "quiet es \<Longrightarrow> pending (take n es) = 0"
proof (induction es arbitrary: n)
  case Nil
  show ?case by simp
next
  case (Cons e es)
  then show ?case by (cases n) (auto simp: quiet_def)
qed

lemma pending_quiet: "quiet es \<Longrightarrow> pending es = 0"
  using pending_quiet_take [of es "length es"] by simp

lemma classify_effect_quiet: "list_all classify_effect es \<Longrightarrow> quiet es"
proof (induction es)
  case Nil
  show ?case by (simp add: quiet_def)
next
  case (Cons e es)
  then show ?case by (cases e) (simp_all add: quiet_def)
qed

lemma is_console_quiet: "list_all is_console es \<Longrightarrow> quiet es"
proof (induction es)
  case Nil
  show ?case by (simp add: quiet_def)
next
  case (Cons e es)
  then show ?case by (cases e) (simp_all add: quiet_def)
qed

lemma classify_effect_no_env_read:
  "list_all classify_effect es \<Longrightarrow> list_all (\<lambda>e. \<not> is_env_read e) es"
proof (induction es)
  case Nil
  show ?case by simp
next
  case (Cons e es)
  then show ?case by (cases e) simp_all
qed

lemma is_console_no_env_read:
  "list_all is_console es \<Longrightarrow> list_all (\<lambda>e. \<not> is_env_read e) es"
proof (induction es)
  case Nil
  show ?case by simp
next
  case (Cons e es)
  then show ?case by (cases e) simp_all
qed

lemma classify_try_effects:
  "classify_try ev f s = (res, s', tr) \<Longrightarrow> list_all classify_effect tr"
  by (auto simp: classify_try_def classify_response_def Let_def
           split: if_splits sum.splits prod.splits)

lemma classifyAudio_trace:
  "\<exists>mid. snd (snd (classifyAudio ev f s)) = ClassifyBegin f # mid @ [ClassifySettled]
       \<and> list_all classify_effect mid"
proof -
  obtain res0 s0 tr0 where ct:
    "classify_try ev f (s\<lparr>isClassifying := True, classificationResult := None\<rparr>) = (res0, s0, tr0)"
    by (cases "classify_try ev f (s\<lparr>isClassifying := True, classificationResult := None\<rparr>)") auto
  from classify_try_effects [OF ct] have q: "list_all classify_effect tr0" .
  show ?thesis
  proof (cases res0)
    case (Inl x)
    with ct q show ?thesis
      by (intro exI [of _ "tr0 @ [ConsoleError ''Classification error:'']"])
         (simp add: classifyAudio_def)
  next
    case (Inr c)
    with ct q show ?thesis
      by (intro exI [of _ tr0]) (simp add: classifyAudio_def)
  qed
qed

lemma classifyStep_trace:
  "\<exists>mid lg. snd (snd (snd (classifyStep ev f s)))
       = ClassifyBegin f # mid @ [ClassifySettled] @ lg
     \<and> list_all classify_effect mid \<and> list_all is_console lg"
proof -
  obtain res s1 tr where ca: "classifyAudio ev f s = (res, s1, tr)"
    by (cases "classifyAudio ev f s") auto
  from classifyAudio_trace [of ev f s] ca obtain mid where
    tr: "tr = ClassifyBegin f # mid @ [ClassifySettled]" and q: "list_all classify_effect mid"
    by auto
  show ?thesis
  proof (cases res)
    case (Inl x)
    with ca tr q show ?thesis
      by (intro exI [of _ mid] exI [of _ "[ConsoleError ''Classification failed:'']"])
         (simp add: classifyStep_def Let_def)
  next
    case (Inr c)
    obtain t where "findTop c = Inr t" using findTop_total by blast
    with Inr ca tr q show ?thesis
      by (intro exI [of _ mid] exI [of _ "[]"]) (simp add: classifyStep_def Let_def)
  qed
qed

lemma handleSubmit_trace:
  assumes "file' s = Some f" and "trim (location s) \<noteq> []"
  shows "\<exists>mid lg post. snd (handleSubmit ev s)
       = ClassifyBegin f # mid @ [ClassifySettled] @ lg
           @ [OnUploadBegin f (location s), OnUploadSettled] @ post
       \<and> list_all classify_effect mid \<and> list_all is_console lg
       \<and> (post = [] \<or> post = [FileInputCleared])"
proof -
  let ?s0 = "s\<lparr>isUploading := True, error := None\<rparr>"
  obtain c tp s1 tr where st: "classifyStep ev f ?s0 = (c, tp, s1, tr)"
    by (cases "classifyStep ev f ?s0") auto
  from classifyStep_trace [of ev f ?s0] st obtain mid lg where
    tr: "tr = ClassifyBegin f # mid @ [ClassifySettled] @ lg"
    and q: "list_all classify_effect mid" "list_all is_console lg"
    by auto
  show ?thesis
  proof (cases "onUpload ev f (location s)")
    case (Inl x)
    with assms st tr q show ?thesis
      by (intro exI [of _ mid] exI [of _ lg] exI [of _ "[]"])
         (simp add: handleSubmit_def)
  next
    case (Inr u)
    with assms st tr q show ?thesis
      by (intro exI [of _ mid] exI [of _ lg]
            exI [of _ "if hasFileInput ev then [FileInputCleared] else []"])
         (simp add: handleSubmit_def)
  qed
qed

lemma handleSubmit_no_env_read:
  "list_all (\<lambda>e. \<not> is_env_read e) (snd (handleSubmit ev s))"
proof (cases "file' s")
  case None
  then show ?thesis by (simp add: handleSubmit_def)
next
  case (Some f)
  show ?thesis
  proof (cases "trim (location s) = []")
    case True
    with Some show ?thesis by (simp add: handleSubmit_def)
  next
    case False
    from handleSubmit_trace [OF Some False, of ev] obtain mid lg post where
      tr: "snd (handleSubmit ev s)
            = ClassifyBegin f # mid @ [ClassifySettled] @ lg
                @ [OnUploadBegin f (location s), OnUploadSettled] @ post"
      and q: "list_all classify_effect mid" "list_all is_console lg"
        "post = [] \<or> post = [FileInputCleared]" by blast
    from q(3) have "list_all (\<lambda>e. \<not> is_env_read e) post" by auto
    with classify_effect_no_env_read [OF q(1)] is_console_no_env_read [OF q(2)]
    show ?thesis unfolding tr by simp
  qed
qed

lemma pending_sequential:
  assumes "quiet mid" and "quiet lg" and "quiet post"
  shows "pending (take n (ClassifyBegin f # mid @ [ClassifySettled] @ lg
            @ [OnUploadBegin f l, OnUploadSettled] @ post)) \<in> {0, 1}"
  using assms
  by (auto simp: take_Cons' pending_append pending_quiet_take pending_quiet)

section \<open>Properties of file selection\<close>

text \<open>
  C4. A file offered by drag-and-drop or through the file picker (the first file of the
  list) is accepted exactly when its MIME type is audio/mpeg or its name ends with .mp3:
  it then becomes the pending file and the error message and the classification result are
  cleared. Otherwise the pending file stays as it was and the error message becomes
  "Please upload an MP3 file". A drop also ends the drag highlight.
\<close>

theorem mp3_accepted_iff:
  "handleDrop (Some (f # fs)) s =
     (if file_type f = ''audio/mpeg'' \<or> endsWith (file_name f) ''.mp3''
      then s\<lparr>dragActive := False, file' := Some f, error := None, classificationResult := None\<rparr>
      else s\<lparr>dragActive := False, error := Some ''Please upload an MP3 file''\<rparr>)
   \<and> handleFileChange (Some (f # fs)) s =
     (if file_type f = ''audio/mpeg'' \<or> endsWith (file_name f) ''.mp3''
      then s\<lparr>file' := Some f, error := None, classificationResult := None\<rparr>
      else s\<lparr>error := Some ''Please upload an MP3 file''\<rparr>)
   \<and> ((file' (handleDrop (Some (f # fs)) s) = Some f
         \<and> error (handleDrop (Some (f # fs)) s) = None
         \<and> classificationResult (handleDrop (Some (f # fs)) s) = None)
        \<longleftrightarrow> (file_type f = ''audio/mpeg'' \<or> endsWith (file_name f) ''.mp3''))
   \<and> ((file' (handleFileChange (Some (f # fs)) s) = Some f
         \<and> error (handleFileChange (Some (f # fs)) s) = None
         \<and> classificationResult (handleFileChange (Some (f # fs)) s) = None)
        \<longleftrightarrow> (file_type f = ''audio/mpeg'' \<or> endsWith (file_name f) ''.mp3''))"
  by (simp add: handleDrop_def handleFileChange_def first_file_def offer_def is_mp3_def)

theorem mp3_accepted_iff_witness:
  "handleDrop (Some [song, memo])
      (ready_state\<lparr>file' := Some memo, error := Some ''old'', classificationResult := Some scores\<rparr>)
     = ready_state\<lparr>file' := Some song, error := None, classificationResult := None,
                   dragActive := False\<rparr>
   \<and> handleFileChange (Some [memo]) ready_state
     = ready_state\<lparr>error := Some ''Please upload an MP3 file''\<rparr>
   \<and> file' (handleFileChange (Some [memo]) ready_state) = Some song"
proof -
  have a: "file_type song = ''audio/mpeg''" by (simp add: song_def)
  have b: "\<not> (file_type memo = ''audio/mpeg'' \<or> endsWith (file_name memo) ''.mp3'')"
    by (simp add: memo_def endsWith_def)
  have c: "file' ready_state = Some song" by (simp add: ready_state_def)
  show ?thesis
    using mp3_accepted_iff [of song "[memo]"
        "ready_state\<lparr>file' := Some memo, error := Some ''old'', classificationResult := Some scores\<rparr>"]
      mp3_accepted_iff [of memo "[]" ready_state] a b c
    by simp
qed

section \<open>Properties of classification\<close>

text \<open>
  C6, as stated, fails when the body of the 503 response cannot be read: the source awaits
  \<open>response.text()\<close> before it tests the status, so the error thrown carries the message of
  the failed read and not the message about the model loading.
\<close>

theorem status_503_unreadable_counterexample:
  "Fetch (classify_request (Some ''hf_abc'') [73, 68, 51]) (Inr response_503_unreadable)
      \<in> set (snd (snd (classifyAudio env_503_unreadable song ready_state)))
   \<and> status response_503_unreadable = 503
   \<and> fst (classifyAudio env_503_unreadable song ready_state)
        = Inl (JsError ''Classification failed: body stream failed'')"
  by (simp add: classifyAudio_def classify_try_def classify_response_def token_missing_def
        message_or_def ok_def env_503_unreadable_def env_ok_def response_503_unreadable_def
        response_503_def Let_def)

text \<open>
  C6, amended. Whenever a call of \<open>classifyAudio\<close> receives a response with status 503, it
  has made exactly one request and it throws: when the body of the response can be read,
  the message of the error says that the model is loading and that the caller should try
  again; when reading the body fails, the message is that of the failed read.
\<close>

theorem status_503_single_request:
  assumes "classifyAudio ev f s = (res, s', tr)"
    and "Fetch req (Inr r) \<in> set tr" and "status r = 503"
  shows "length (filter is_fetch tr) = 1
     \<and> (\<forall>errorText. resp_text r = Inr errorText \<longrightarrow>
          res = Inl (JsError
            ''Classification failed: Model is loading, please wait a moment and try again''))
     \<and> (\<forall>x. resp_text r = Inl x \<longrightarrow>
          res = Inl (JsError (''Classification failed: '' @ message_or ''Unknown error'' x)))"
proof -
  obtain res0 s0 tr0 where ct:
    "classify_try ev f (s\<lparr>isClassifying := True, classificationResult := None\<rparr>) = (res0, s0, tr0)"
    by (cases "classify_try ev f (s\<lparr>isClassifying := True, classificationResult := None\<rparr>)") auto
  have tr: "set tr \<subseteq> insert (ClassifyBegin f) (insert (ConsoleError ''Classification error:'')
               (insert ClassifySettled (set tr0)))"
    and len: "length (filter is_fetch tr) = length (filter is_fetch tr0)"
    using assms(1) ct by (auto simp: classifyAudio_def split: sum.splits)
  from tr assms(2) have mem: "Fetch req (Inr r) \<in> set tr0" by auto
  with classify_try_fetch [OF ct] assms(3)
  have r0: "case resp_text r of
              Inl x \<Rightarrow> res0 = Inl x
            | Inr _ \<Rightarrow>
                res0 = Inl (JsError ''Model is loading, please wait a moment and try again'')"
    and le: "length (filter is_fetch tr0) \<le> 1" by blast+
  from mem have "filter is_fetch tr0 \<noteq> []" by (auto simp: filter_empty_conv intro!: bexI)
  with le len have 1: "length (filter is_fetch tr) = 1"
    by (cases "filter is_fetch tr0") auto
  have 2: "\<forall>errorText. resp_text r = Inr errorText \<longrightarrow>
          res = Inl (JsError
            ''Classification failed: Model is loading, please wait a moment and try again'')"
    using assms(1) ct r0 by (auto simp: classifyAudio_def message_or_def)
  have 3: "\<forall>x. resp_text r = Inl x \<longrightarrow>
          res = Inl (JsError (''Classification failed: '' @ message_or ''Unknown error'' x))"
    using assms(1) ct r0 by (auto simp: classifyAudio_def)
  from 1 2 3 show ?thesis by blast
qed

theorem status_503_single_request_witness:
  "Fetch (classify_request (Some ''hf_abc'') [73, 68, 51]) (Inr response_503)
      \<in> set (snd (snd (classifyAudio env_503 song ready_state)))
   \<and> status response_503 = 503 \<and> resp_text response_503 = Inr ''loading''
   \<and> length (filter is_fetch (snd (snd (classifyAudio env_503 song ready_state)))) = 1
   \<and> fst (classifyAudio env_503 song ready_state)
        = Inl (JsError ''Classification failed: Model is loading, please wait a moment and try again'')
   \<and> Fetch (classify_request (Some ''hf_abc'') [73, 68, 51]) (Inr response_503_unreadable)
      \<in> set (snd (snd (classifyAudio env_503_unreadable song ready_state)))
   \<and> status response_503_unreadable = 503
   \<and> resp_text response_503_unreadable = Inl (JsError ''body stream failed'')
   \<and> length (filter is_fetch (snd (snd (classifyAudio env_503_unreadable song ready_state)))) = 1
   \<and> fst (classifyAudio env_503_unreadable song ready_state)
        = Inl (JsError ''Classification failed: body stream failed'')"
proof -
  have st: "status response_503 = 503" "resp_text response_503 = Inr ''loading''"
    by (simp_all add: response_503_def)
  have st': "status response_503_unreadable = 503"
    "resp_text response_503_unreadable = Inl (JsError ''body stream failed'')"
    by (simp_all add: response_503_unreadable_def response_503_def)
  have mem: "Fetch (classify_request (Some ''hf_abc'') [73, 68, 51]) (Inr response_503)
      \<in> set (snd (snd (classifyAudio env_503 song ready_state)))"
    by (simp add: classifyAudio_def classify_try_def classify_response_def token_missing_def
          ok_def env_503_def env_ok_def response_503_def Let_def)
  have mem': "Fetch (classify_request (Some ''hf_abc'') [73, 68, 51]) (Inr response_503_unreadable)
      \<in> set (snd (snd (classifyAudio env_503_unreadable song ready_state)))"
    by (simp add: classifyAudio_def classify_try_def classify_response_def token_missing_def
          ok_def env_503_unreadable_def env_ok_def response_503_unreadable_def
          response_503_def Let_def)
  have eq: "classifyAudio env_503 song ready_state
      = (fst (classifyAudio env_503 song ready_state),
         fst (snd (classifyAudio env_503 song ready_state)),
         snd (snd (classifyAudio env_503 song ready_state)))" by simp
  have eq': "classifyAudio env_503_unreadable song ready_state
      = (fst (classifyAudio env_503_unreadable song ready_state),
         fst (snd (classifyAudio env_503_unreadable song ready_state)),
         snd (snd (classifyAudio env_503_unreadable song ready_state)))" by simp
  from status_503_single_request [OF eq mem st(1)]
    status_503_single_request [OF eq' mem' st'(1)] mem mem' st st'
  show ?thesis by (simp add: message_or_def)
qed

text \<open>
  C8, as stated, fails. With no token configured \<open>classifyAudio\<close> throws
  "Hugging Face API token is not configured" and sends nothing, while the same call with
  a token configured returns the scores; and where \<open>app.listen\<close> refuses the value of PORT
  (here 99999), the start of the server fails before its callback runs.
\<close>

theorem env_vars_counterexample:
  "HF_API_TOKEN env_no_token = None
   \<and> classifyAudio env_no_token song initial_state
       = (Inl (JsError ''Classification failed: Hugging Face API token is not configured''),
          initial_state,
          [ClassifyBegin song, ConsoleError ''Classification error:'', ClassifySettled])
   \<and> fst (classifyAudio (env_no_token\<lparr>HF_API_TOKEN := Some ''hf_abc''\<rparr>) song initial_state)
       = Inr scores
   \<and> process_env node_bad_port ''PORT'' = Some ''99999''
   \<and> index_js node_bad_port
       = (Inl (JsError ''ERR_SOCKET_BAD_PORT''),
          [DotenvConfig, ProcessEnvRead ''PORT'', Listen (Some ''99999'')])"
  by (simp add: classifyAudio_def classify_try_def classify_response_def token_missing_def
        message_or_def ok_def env_no_token_def env_ok_def response_200_def initial_state_def
        index_js_def node_bad_port_def Let_def)

text \<open>
  C8, amended. Each variable is read once, when its module starts: the token by the
  module of the component and PORT by \<open>index.js\<close>; no handler reads the environment again.
  The token is inspected for presence only: when it is undefined or empty,
  \<open>classifyAudio\<close> throws "Hugging Face API token is not configured" without any request,
  and every non-empty token, whatever its text, is sent as it is in the header
  Authorization: Bearer token of the single request. \<open>index.js\<close> does not inspect PORT: it
  hands the value it read, absent or malformed included, to \<open>app.listen\<close>; the start fails
  exactly when \<open>app.listen\<close> refuses that value, and otherwise the server logs the port and
  connects to the database.
\<close>

theorem env_vars_read_once:
  "module_init m = (m ''VITE_HF_API_TOKEN'', [EnvRead ''VITE_HF_API_TOKEN''])
   \<and> list_all (\<lambda>e. \<not> is_env_read e) (snd (snd (classifyAudio ev f s)))
   \<and> list_all (\<lambda>e. \<not> is_env_read e) (snd (handleSubmit ev s))
   \<and> ((HF_API_TOKEN ev = None \<or> HF_API_TOKEN ev = Some []) \<longrightarrow>
      classifyAudio ev f s
        = (Inl (JsError ''Classification failed: Hugging Face API token is not configured''),
           s\<lparr>isClassifying := False, classificationResult := None\<rparr>,
           [ClassifyBegin f, ConsoleError ''Classification error:'', ClassifySettled]))
   \<and> (HF_API_TOKEN ev = Some t \<and> t \<noteq> [] \<and> arrayBuffer ev f = Inr buf \<longrightarrow>
      filter is_fetch (snd (snd (classifyAudio ev f s)))
        = [Fetch \<lparr>url = ENDPOINT_URL, http_method = ''POST'',
                  headers = [(''Authorization'', ''Bearer '' @ t),
                             (''Content-Type'', ''audio/mpeg'')],
                  body = buf\<rparr>
             (fetch ev \<lparr>url = ENDPOINT_URL, http_method = ''POST'',
                  headers = [(''Authorization'', ''Bearer '' @ t),
                             (''Content-Type'', ''audio/mpeg'')],
                  body = buf\<rparr>)])
   \<and> filter is_process_env_read (snd (index_js nd)) = [ProcessEnvRead ''PORT'']
   \<and> Listen (process_env nd ''PORT'') \<in> set (snd (index_js nd))
   \<and> (\<forall>x. listen nd (process_env nd ''PORT'') = Inl x \<longrightarrow>
        index_js nd
          = (Inl x, [DotenvConfig, ProcessEnvRead ''PORT'', Listen (process_env nd ''PORT'')]))
   \<and> (listen nd (process_env nd ''PORT'') = Inr () \<longrightarrow>
        index_js nd
          = (Inr (),
             [DotenvConfig, ProcessEnvRead ''PORT'', Listen (process_env nd ''PORT''),
              ConsoleLog (''Server running on port '' @ interpolate (process_env nd ''PORT'')),
              ConnectDB]))"
proof -
  have 0: "module_init m = (m ''VITE_HF_API_TOKEN'', [EnvRead ''VITE_HF_API_TOKEN''])"
    by (simp add: module_init_def)
  from classifyAudio_trace [of ev f s] obtain mid where
    "snd (snd (classifyAudio ev f s)) = ClassifyBegin f # mid @ [ClassifySettled]"
    "list_all classify_effect mid" by blast
  then have 1: "list_all (\<lambda>e. \<not> is_env_read e) (snd (snd (classifyAudio ev f s)))"
    using classify_effect_no_env_read [of mid] by simp
  have 2: "(HF_API_TOKEN ev = None \<or> HF_API_TOKEN ev = Some []) \<longrightarrow>
      classifyAudio ev f s
        = (Inl (JsError ''Classification failed: Hugging Face API token is not configured''),
           s\<lparr>isClassifying := False, classificationResult := None\<rparr>,
           [ClassifyBegin f, ConsoleError ''Classification error:'', ClassifySettled])"
    by (auto simp: classifyAudio_def classify_try_def token_missing_def message_or_def)
  have 3: "HF_API_TOKEN ev = Some t \<and> t \<noteq> [] \<and> arrayBuffer ev f = Inr buf \<longrightarrow>
      filter is_fetch (snd (snd (classifyAudio ev f s)))
        = [Fetch (classify_request (Some t) buf) (fetch ev (classify_request (Some t) buf))]"
    by (auto simp: classifyAudio_def classify_try_def classify_response_def token_missing_def
          Let_def split: sum.splits prod.splits)
  have 4: "filter is_process_env_read (snd (index_js nd)) = [ProcessEnvRead ''PORT'']"
    "Listen (process_env nd ''PORT'') \<in> set (snd (index_js nd))"
    by (simp_all add: index_js_def Let_def split: sum.splits)
  have 5: "\<forall>x. listen nd (process_env nd ''PORT'') = Inl x \<longrightarrow>
        index_js nd
          = (Inl x, [DotenvConfig, ProcessEnvRead ''PORT'', Listen (process_env nd ''PORT'')])"
    by (simp add: index_js_def Let_def)
  have 6: "listen nd (process_env nd ''PORT'') = Inr () \<longrightarrow>
        index_js nd
          = (Inr (),
             [DotenvConfig, ProcessEnvRead ''PORT'', Listen (process_env nd ''PORT''),
              ConsoleLog (''Server running on port '' @ interpolate (process_env nd ''PORT'')),
              ConnectDB])"
    by (simp add: index_js_def Let_def)
  from 0 1 handleSubmit_no_env_read [of ev s] 2 3 4 5 6 show ?thesis
    by (simp add: classify_request_def interpolate_def)
qed

theorem env_vars_read_once_witness:
  "module_init import_meta_env_empty = (None, [EnvRead ''VITE_HF_API_TOKEN''])
   \<and> HF_API_TOKEN env_no_token = None
   \<and> classifyAudio env_no_token song initial_state
        = (Inl (JsError ''Classification failed: Hugging Face API token is not configured''),
           initial_state\<lparr>isClassifying := False, classificationResult := None\<rparr>,
           [ClassifyBegin song, ConsoleError ''Classification error:'', ClassifySettled])
   \<and> HF_API_TOKEN env_ok = Some ''hf_abc'' \<and> arrayBuffer env_ok song = Inr [73, 68, 51]
   \<and> filter is_fetch (snd (snd (classifyAudio env_ok song initial_state)))
        = [Fetch \<lparr>url = ENDPOINT_URL, http_method = ''POST'',
                  headers = [(''Authorization'', ''Bearer hf_abc''),
                             (''Content-Type'', ''audio/mpeg'')],
                  body = [73, 68, 51]\<rparr>
             (Inr response_200)]
   \<and> listen node_bad_port (process_env node_bad_port ''PORT'') = Inl (JsError ''ERR_SOCKET_BAD_PORT'')
   \<and> index_js node_bad_port
        = (Inl (JsError ''ERR_SOCKET_BAD_PORT''),
           [DotenvConfig, ProcessEnvRead ''PORT'', Listen (Some ''99999'')])
   \<and> listen node_no_port (process_env node_no_port ''PORT'') = Inr ()
   \<and> index_js node_no_port
        = (Inr (),
           [DotenvConfig, ProcessEnvRead ''PORT'', Listen None,
            ConsoleLog ''Server running on port undefined'', ConnectDB])"
proof -
  have a: "HF_API_TOKEN env_no_token = None" by (simp add: env_no_token_def env_ok_def)
  have b: "HF_API_TOKEN env_ok = Some ''hf_abc''" "arrayBuffer env_ok song = Inr [73, 68, 51]"
    "fetch env_ok = (\<lambda>_. Inr response_200)"
    by (simp_all add: env_ok_def)
  have c: "process_env node_bad_port ''PORT'' = Some ''99999''"
    "listen node_bad_port (Some ''99999'') = Inl (JsError ''ERR_SOCKET_BAD_PORT'')"
    "process_env node_no_port ''PORT'' = None" "listen node_no_port None = Inr ()"
    by (simp_all add: node_bad_port_def node_no_port_def)
  have d: "import_meta_env_empty ''VITE_HF_API_TOKEN'' = None"
    by (simp add: import_meta_env_empty_def)
  from env_vars_read_once [of import_meta_env_empty env_no_token song initial_state
        "''hf_abc''" "[73, 68, 51]" node_bad_port]
    env_vars_read_once [of import_meta_env_empty env_ok song initial_state
        "''hf_abc''" "[73, 68, 51]" node_no_port]
    a b c d show ?thesis by (simp add: interpolate_def)
qed

section \<open>Properties of submission\<close>

text \<open>
  C9. Without a selected file \<open>handleSubmit\<close> only sets the error to
  "Please select a file to upload"; with a file and a location that is empty or made of
  white space only it only sets the error to "Please enter a location". In both cases
  the trace of effects is empty (neither the classification nor \<open>onUpload\<close> runs) and no
  other state cell, the history included, changes.
\<close>

theorem submit_guards:
  "(file' s = None \<longrightarrow>
      handleSubmit ev s = (s\<lparr>error := Some ''Please select a file to upload''\<rparr>, []))
   \<and> (file' s \<noteq> None \<and> list_all is_ws (location s) \<longrightarrow>
      handleSubmit ev s = (s\<lparr>error := Some ''Please enter a location''\<rparr>, []))"
  by (auto simp: handleSubmit_def trim_blank_iff)

theorem submit_guards_witness:
  "file' initial_state = None
   \<and> handleSubmit env_ok initial_state
       = (initial_state\<lparr>error := Some ''Please select a file to upload''\<rparr>, [])
   \<and> file' blank_state \<noteq> None \<and> location blank_state = [0x00A0, 0x0020, 0x3000, 0x0009]
   \<and> list_all is_ws (location blank_state)
   \<and> handleSubmit env_ok blank_state
       = (blank_state\<lparr>error := Some ''Please enter a location''\<rparr>, [])"
proof -
  have a: "file' initial_state = None" by (simp add: initial_state_def)
  have b: "file' blank_state \<noteq> None" "location blank_state = [0x00A0, 0x0020, 0x3000, 0x0009]"
    by (simp_all add: blank_state_def ready_state_def initial_state_def)
  have c: "list_all is_ws (location blank_state)"
    unfolding b(2) by (simp add: is_ws_def)
  from a b c submit_guards [of initial_state env_ok] submit_guards [of blank_state env_ok]
  show ?thesis by simp
qed

text \<open>
  C1, as stated, fails when \<open>onUpload\<close> rejects: the classification throws (no token), the
  callback is invoked and rejects with "offline", and the history is left as it was.
\<close>

theorem classification_failure_counterexample:
  "file' ready_state = Some song \<and> trim (location ready_state) \<noteq> []
   \<and> fst (classifyAudio env_upload_rejects song (ready_state\<lparr>isUploading := True, error := None\<rparr>))
       = Inl (JsError ''Classification failed: Hugging Face API token is not configured'')
   \<and> uploadedFiles (fst (handleSubmit env_upload_rejects ready_state)) = uploadedFiles ready_state
   \<and> error (fst (handleSubmit env_upload_rejects ready_state)) = Some ''offline''"
  by (simp add: sample_defs model_defs)

text \<open>
  C1, amended. For a submission with a selected file and a non-blank location in which the
  classification call throws, \<open>handleSubmit\<close> still invokes \<open>onUpload\<close> with the same file and
  location; when that call resolves, one entry is put in front of the history, with an
  empty classification and the top prediction "unknown" with confidence 0; when it
  rejects, the history is unchanged.
\<close>

theorem classification_failure_still_uploads:
  assumes "file' s = Some f" and "trim (location s) \<noteq> []"
    and "fst (classifyAudio ev f (s\<lparr>isUploading := True, error := None\<rparr>)) = Inl x"
  shows "OnUploadBegin f (location s) \<in> set (snd (handleSubmit ev s))
     \<and> (onUpload ev f (location s) = Inr () \<longrightarrow>
          uploadedFiles (fst (handleSubmit ev s))
            = fileInfo ev f (location s) [] \<lparr>top_label = ''unknown'', confidence = 0\<rparr>
                # uploadedFiles s)
     \<and> (\<forall>y. onUpload ev f (location s) = Inl y \<longrightarrow>
          uploadedFiles (fst (handleSubmit ev s)) = uploadedFiles s)"
proof -
  let ?s0 = "s\<lparr>isUploading := True, error := None\<rparr>"
  obtain s2 tr where ca: "classifyAudio ev f ?s0 = (Inl x, s2, tr)"
    using assms(3) by (cases "classifyAudio ev f ?s0") auto
  define s1 where "s1 = s2\<lparr>error := Some (''Audio classification failed: '' @ message_or ''Unknown error'' x)\<rparr>"
  have st: "classifyStep ev f ?s0
      = ([], unknownPrediction, s1, tr @ [ConsoleError ''Classification failed:''])"
    by (simp add: classifyStep_def ca Let_def s1_def)
  from classifyStep_state [OF st] have uf: "uploadedFiles s1 = uploadedFiles s" by auto
  have 1: "OnUploadBegin f (location s) \<in> set (snd (handleSubmit ev s))"
    using assms(1,2) st by (cases "onUpload ev f (location s)") (simp_all add: handleSubmit_def)
  have 2: "onUpload ev f (location s) = Inr () \<longrightarrow>
          uploadedFiles (fst (handleSubmit ev s))
            = fileInfo ev f (location s) [] \<lparr>top_label = ''unknown'', confidence = 0\<rparr>
                # uploadedFiles s"
    using assms(1,2) st uf by (simp add: handleSubmit_def unknownPrediction_def)
  have 3: "\<forall>y. onUpload ev f (location s) = Inl y \<longrightarrow>
          uploadedFiles (fst (handleSubmit ev s)) = uploadedFiles s"
    using assms(1,2) st uf by (simp add: handleSubmit_def)
  from 1 2 3 show ?thesis by blast
qed

theorem classification_failure_still_uploads_witness:
  "file' ready_state = Some song \<and> trim (location ready_state) \<noteq> []
   \<and> fst (classifyAudio env_no_token song (ready_state\<lparr>isUploading := True, error := None\<rparr>))
       = Inl (JsError ''Classification failed: Hugging Face API token is not configured'')
   \<and> onUpload env_no_token song (location ready_state) = Inr ()
   \<and> OnUploadBegin song (utf16 ''5th Street'') \<in> set (snd (handleSubmit env_no_token ready_state))
   \<and> uploadedFiles (fst (handleSubmit env_no_token ready_state))
       = [fileInfo env_no_token song (utf16 ''5th Street'') [] \<lparr>top_label = ''unknown'', confidence = 0\<rparr>,
          older_entry]
   \<and> fst (classifyAudio env_upload_rejects song (ready_state\<lparr>isUploading := True, error := None\<rparr>))
       = Inl (JsError ''Classification failed: Hugging Face API token is not configured'')
   \<and> onUpload env_upload_rejects song (location ready_state) = Inl (JsError ''offline'')
   \<and> OnUploadBegin song (utf16 ''5th Street'') \<in> set (snd (handleSubmit env_upload_rejects ready_state))
   \<and> uploadedFiles (fst (handleSubmit env_upload_rejects ready_state)) = [older_entry]"
proof -
  have a: "file' ready_state = Some song" by (simp add: ready_state_def)
  have b: "trim (location ready_state) \<noteq> []"
    by (simp add: ready_state_def utf16_def trim_def is_ws_def)
  have c: "fst (classifyAudio env_no_token song (ready_state\<lparr>isUploading := True, error := None\<rparr>))
       = Inl (JsError ''Classification failed: Hugging Face API token is not configured'')"
    by (simp add: classifyAudio_def classify_try_def token_missing_def message_or_def
          env_no_token_def env_ok_def)
  have c': "fst (classifyAudio env_upload_rejects song (ready_state\<lparr>isUploading := True, error := None\<rparr>))
       = Inl (JsError ''Classification failed: Hugging Face API token is not configured'')"
    by (simp add: classifyAudio_def classify_try_def token_missing_def message_or_def
          env_upload_rejects_def env_no_token_def env_ok_def)
  have d: "onUpload env_no_token song (location ready_state) = Inr ()"
    by (simp add: env_no_token_def env_ok_def)
  have d': "onUpload env_upload_rejects song (location ready_state) = Inl (JsError ''offline'')"
    by (simp add: env_upload_rejects_def env_no_token_def env_ok_def)
  have e: "location ready_state = utf16 ''5th Street''" "uploadedFiles ready_state = [older_entry]"
    by (simp_all add: ready_state_def)
  from classification_failure_still_uploads [OF a b c]
    classification_failure_still_uploads [OF a b c'] a b c c' d d' e
  show ?thesis by simp
qed

text \<open>
  C3. When \<open>classifyAudio\<close> returns a non-empty list, the top prediction recorded in the
  new history entry carries the label and the score of the first element of the list
  whose score is maximal: no element has a greater score, and every element before it
  has a strictly smaller one.
\<close>

theorem top_prediction_first_maximum:
  assumes "file' s = Some f" and "trim (location s) \<noteq> []"
    and "onUpload ev f (location s) = Inr u"
    and "fst (classifyAudio ev f (s\<lparr>isUploading := True, error := None\<rparr>)) = Inr c"
    and "c \<noteq> []"
  shows "\<exists>i<length c.
      classification (hd (uploadedFiles (fst (handleSubmit ev s)))) = c
      \<and> topPrediction (hd (uploadedFiles (fst (handleSubmit ev s))))
          = \<lparr>top_label = label (c ! i), confidence = score (c ! i)\<rparr>
      \<and> (\<forall>y \<in> set c. score y \<le> score (c ! i))
      \<and> (\<forall>j<i. score (c ! j) < score (c ! i))"
proof -
  from findTop_first_max [OF assms(5)] obtain i where i: "i < length c"
    and ft: "findTop c = Inr \<lparr>top_label = label (c ! i), confidence = score (c ! i)\<rparr>"
    and mx: "\<forall>y \<in> set c. score y \<le> score (c ! i)"
    and fm: "\<forall>j<i. score (c ! j) < score (c ! i)" by blast
  obtain s2 tr where ca:
    "classifyAudio ev f (s\<lparr>isUploading := True, error := None\<rparr>) = (Inr c, s2, tr)"
    using assms(4) by (cases "classifyAudio ev f (s\<lparr>isUploading := True, error := None\<rparr>)") auto
  have st: "classifyStep ev f (s\<lparr>isUploading := True, error := None\<rparr>)
              = (c, \<lparr>top_label = label (c ! i), confidence = score (c ! i)\<rparr>, s2, tr)"
    by (simp add: classifyStep_def ca ft)
  have "hd (uploadedFiles (fst (handleSubmit ev s)))
          = fileInfo ev f (location s) c \<lparr>top_label = label (c ! i), confidence = score (c ! i)\<rparr>"
    unfolding handleSubmit_success [OF assms(1,2,3) st] by simp
  then show ?thesis using i mx fm
    by (intro exI [of _ i]) (simp add: fileInfo_def)
qed

theorem top_prediction_first_maximum_witness:
  "file' ready_state = Some song \<and> trim (location ready_state) \<noteq> []
   \<and> onUpload env_ok song (location ready_state) = Inr ()
   \<and> fst (classifyAudio env_ok song (ready_state\<lparr>isUploading := True, error := None\<rparr>)) = Inr scores
   \<and> scores \<noteq> []
   \<and> (\<exists>i<length scores.
      classification (hd (uploadedFiles (fst (handleSubmit env_ok ready_state)))) = scores
      \<and> topPrediction (hd (uploadedFiles (fst (handleSubmit env_ok ready_state))))
          = \<lparr>top_label = label (scores ! i), confidence = score (scores ! i)\<rparr>
      \<and> (\<forall>y \<in> set scores. score y \<le> score (scores ! i))
      \<and> (\<forall>j<i. score (scores ! j) < score (scores ! i)))"
proof -
  have a: "file' ready_state = Some song" by (simp add: ready_state_def)
  have b: "trim (location ready_state) \<noteq> []"
    by (simp add: ready_state_def utf16_def trim_def is_ws_def)
  have c: "onUpload env_ok song (location ready_state) = Inr ()" by (simp add: env_ok_def)
  have d: "fst (classifyAudio env_ok song (ready_state\<lparr>isUploading := True, error := None\<rparr>)) = Inr scores"
    by (simp add: classifyAudio_def classify_try_def classify_response_def token_missing_def
          ok_def env_ok_def response_200_def Let_def)
  have e: "scores \<noteq> []" by (simp add: scores_def)
  from top_prediction_first_maximum [OF a b c d e] a b c d e show ?thesis by blast
qed

text \<open>
  C7. In a submission that passes the guards the effects come in this order: the
  classification begins; reading the file, the request and reading the response happen,
  all of them before the classification settles; then, after console messages at most,
  \<open>onUpload\<close> begins and settles; after that only the file input is cleared. So every
  effect of the classification precedes the call of \<open>onUpload\<close>, and after every prefix of
  the trace at most one of the two operations is pending.
\<close>

theorem classify_then_upload_sequential:
  assumes "file' s = Some f" and "trim (location s) \<noteq> []"
  shows "(\<exists>mid lg post. snd (handleSubmit ev s)
            = ClassifyBegin f # mid @ [ClassifySettled] @ lg
                @ [OnUploadBegin f (location s), OnUploadSettled] @ post
            \<and> list_all classify_effect mid \<and> list_all is_console lg
            \<and> (post = [] \<or> post = [FileInputCleared]))
     \<and> (\<forall>n. pending (take n (snd (handleSubmit ev s))) \<in> {0, 1})"
proof -
  from handleSubmit_trace [OF assms, of ev] obtain mid lg post where
    tr: "snd (handleSubmit ev s)
            = ClassifyBegin f # mid @ [ClassifySettled] @ lg
                @ [OnUploadBegin f (location s), OnUploadSettled] @ post"
    and q: "list_all classify_effect mid" "list_all is_console lg"
      "post = [] \<or> post = [FileInputCleared]" by blast
  from q(3) have qp: "quiet post" by (auto simp: quiet_def)
  have "\<forall>n. pending (take n (snd (handleSubmit ev s))) \<in> {0, 1}"
    unfolding tr
    using pending_sequential [OF classify_effect_quiet [OF q(1)] is_console_quiet [OF q(2)] qp]
    by blast
  with tr q show ?thesis by blast
qed

theorem classify_then_upload_sequential_witness:
  "file' ready_state = Some song \<and> trim (location ready_state) \<noteq> []
   \<and> (\<exists>mid lg post. snd (handleSubmit env_ok ready_state)
            = ClassifyBegin song # mid @ [ClassifySettled] @ lg
                @ [OnUploadBegin song (location ready_state), OnUploadSettled] @ post
            \<and> list_all classify_effect mid \<and> list_all is_console lg
            \<and> (post = [] \<or> post = [FileInputCleared]))
   \<and> (\<forall>n. pending (take n (snd (handleSubmit env_ok ready_state))) \<in> {0, 1})
   \<and> snd (handleSubmit env_ok ready_state)
       = [ClassifyBegin song, ArrayBufferRead song,
          Fetch (classify_request (Some ''hf_abc'') [73, 68, 51]) (Inr response_200),
          ResponseJson, ClassifySettled,
          OnUploadBegin song (utf16 ''5th Street''), OnUploadSettled, FileInputCleared]"
proof -
  have a: "file' ready_state = Some song" by (simp add: ready_state_def)
  have b: "trim (location ready_state) \<noteq> []"
    by (simp add: ready_state_def utf16_def trim_def is_ws_def)
  have c: "snd (handleSubmit env_ok ready_state)
       = [ClassifyBegin song, ArrayBufferRead song,
          Fetch (classify_request (Some ''hf_abc'') [73, 68, 51]) (Inr response_200),
          ResponseJson, ClassifySettled,
          OnUploadBegin song (utf16 ''5th Street''), OnUploadSettled, FileInputCleared]"
    by (simp add: handleSubmit_def classifyStep_def classifyAudio_def classify_try_def
          classify_response_def token_missing_def findTop_def pick_def ok_def trim_def is_ws_def
          Let_def ready_state_def initial_state_def env_ok_def response_200_def scores_def
          utf16_def)
  from classify_then_upload_sequential [OF a b] a b c show ?thesis by blast
qed

text \<open>
  C2. A successful submission (file selected, location not blank, \<open>onUpload\<close> resolves)
  changes the history by putting exactly one entry, built from the submitted file and
  location, in front of the previous list, which is kept as it was.
\<close>

theorem history_prepend:
  assumes "file' s = Some f" and "trim (location s) \<noteq> []"
    and "onUpload ev f (location s) = Inr u"
  shows "\<exists>c tp. uploadedFiles (fst (handleSubmit ev s))
            = fileInfo ev f (location s) c tp # uploadedFiles s"
proof -
  obtain c tp s1 tr where
    st: "classifyStep ev f (s\<lparr>isUploading := True, error := None\<rparr>) = (c, tp, s1, tr)"
    by (cases "classifyStep ev f (s\<lparr>isUploading := True, error := None\<rparr>)") auto
  from classifyStep_state [OF st] have "uploadedFiles s1 = uploadedFiles s" by auto
  with handleSubmit_success [OF assms st] show ?thesis by auto
qed

theorem history_prepend_witness:
  "file' ready_state = Some song \<and> trim (location ready_state) \<noteq> []
   \<and> onUpload env_ok song (location ready_state) = Inr ()
   \<and> (\<exists>c tp. uploadedFiles (fst (handleSubmit env_ok ready_state))
          = fileInfo env_ok song (location ready_state) c tp # uploadedFiles ready_state)"
proof -
  have a: "file' ready_state = Some song" by (simp add: ready_state_def)
  have b: "trim (location ready_state) \<noteq> []"
    by (simp add: ready_state_def utf16_def trim_def is_ws_def)
  have c: "onUpload env_ok song (location ready_state) = Inr ()" by (simp add: env_ok_def)
  from history_prepend [OF a b c] a b c show ?thesis by blast
qed

text \<open>
  C10. After a successful submission the pending file is null, the location is empty and
  the live classification result is null; apart from these three cells, the error
  message, the two busy flags and the history, the state is as before (the drag
  highlight is untouched).
\<close>

theorem submit_resets_form:
  assumes "file' s = Some f" and "trim (location s) \<noteq> []"
    and "onUpload ev f (location s) = Inr u"
  shows "\<exists>e entry. fst (handleSubmit ev s)
            = s\<lparr>file' := None, location := [], classificationResult := None,
                error := e, isUploading := False, isClassifying := False,
                uploadedFiles := entry # uploadedFiles s\<rparr>"
proof -
  obtain c tp s1 tr where
    st: "classifyStep ev f (s\<lparr>isUploading := True, error := None\<rparr>) = (c, tp, s1, tr)"
    by (cases "classifyStep ev f (s\<lparr>isUploading := True, error := None\<rparr>)") auto
  from classifyStep_state [OF st] obtain e cr where
    s1: "s1 = s\<lparr>isUploading := True, error := None, isClassifying := False,
                 classificationResult := cr, error := e\<rparr>" by blast
  have "fst (handleSubmit ev s)
          = s\<lparr>file' := None, location := [], classificationResult := None,
              error := e, isUploading := False, isClassifying := False,
              uploadedFiles := fileInfo ev f (location s) c tp # uploadedFiles s\<rparr>"
    unfolding handleSubmit_success [OF assms st] s1 by simp
  then show ?thesis by blast
qed

theorem submit_resets_form_witness:
  "file' ready_state = Some song \<and> trim (location ready_state) \<noteq> []
   \<and> onUpload env_ok song (location ready_state) = Inr ()
   \<and> (\<exists>e entry. fst (handleSubmit env_ok ready_state)
          = ready_state\<lparr>file' := None, location := [], classificationResult := None,
                error := e, isUploading := False, isClassifying := False,
                uploadedFiles := entry # uploadedFiles ready_state\<rparr>)"
proof -
  have a: "file' ready_state = Some song" by (simp add: ready_state_def)
  have b: "trim (location ready_state) \<noteq> []"
    by (simp add: ready_state_def utf16_def trim_def is_ws_def)
  have c: "onUpload env_ok song (location ready_state) = Inr ()" by (simp add: env_ok_def)
  from submit_resets_form [OF a b c] a b c show ?thesis by blast
qed

section \<open>Properties of the server\<close>

text \<open>
  C5, as stated, fails for GET /: a conditional GET whose validators are fresh (for
  instance If-None-Match: * on a reload) is answered by \<open>res.send\<close> with status 304 and no
  body.
\<close>

theorem get_root_counterexample:
  "req_verb conditional_get = GET \<and> req_path conditional_get = ''/''
   \<and> app conditional_get = Some \<lparr>res_status = 304, res_payload = NoBody\<rparr>"
  by (simp add: conditional_get_def server_defs)

text \<open>
  C5, amended. Every request to POST /upload, whatever its headers, body and validators
  (and whatever the letter case of the path, with or without a trailing slash), is
  answered with status 201 and the JSON object message = "File uploaded successfully".
  Every request to GET / is answered with status 200 and the text "Hello World!", except
  a conditional GET whose validators are fresh, which is answered with status 304 and no
  body.
\<close>

theorem routes_respond:
  "(req_verb r = POST \<and> route_matches ''/upload'' (req_path r) \<longrightarrow>
      app r = Some \<lparr>res_status = 201,
                res_payload = SendJson [(''message'', ''File uploaded successfully'')]\<rparr>)
   \<and> (req_verb r = GET \<and> route_matches ''/'' (req_path r) \<longrightarrow>
      app r = Some (if req_validators_fresh r
                    then \<lparr>res_status = 304, res_payload = NoBody\<rparr>
                    else \<lparr>res_status = 200, res_payload = SendText ''Hello World!''\<rparr>))
   \<and> route_matches ''/upload'' ''/upload'' \<and> route_matches ''/'' ''/''"
proof -
  have 1: "req_verb r = POST \<and> route_matches ''/upload'' (req_path r) \<longrightarrow>
      app r = Some \<lparr>res_status = 201,
                res_payload = SendJson [(''message'', ''File uploaded successfully'')]\<rparr>"
    by (simp add: app_def post_upload_def res_send_def req_fresh_def)
  have 2: "req_verb r = GET \<and> route_matches ''/'' (req_path r) \<longrightarrow>
      app r = Some (if req_validators_fresh r
                    then \<lparr>res_status = 304, res_payload = NoBody\<rparr>
                    else \<lparr>res_status = 200, res_payload = SendText ''Hello World!''\<rparr>)"
    by (simp add: app_def get_root_def res_send_def req_fresh_def)
  have 3: "route_matches ''/upload'' ''/upload''" "route_matches ''/'' ''/''"
    by (simp_all add: route_matches_def strip_slash_def lower_def)
  from 1 2 3 show ?thesis by blast
qed

theorem routes_respond_witness:
  "req_verb upload_post = POST \<and> route_matches ''/upload'' (req_path upload_post)
   \<and> app upload_post
       = Some \<lparr>res_status = 201,
               res_payload = SendJson [(''message'', ''File uploaded successfully'')]\<rparr>
   \<and> req_verb plain_get = GET \<and> route_matches ''/'' (req_path plain_get)
   \<and> \<not> req_validators_fresh plain_get
   \<and> app plain_get = Some \<lparr>res_status = 200, res_payload = SendText ''Hello World!''\<rparr>
   \<and> req_verb conditional_get = GET \<and> route_matches ''/'' (req_path conditional_get)
   \<and> req_validators_fresh conditional_get
   \<and> app conditional_get = Some \<lparr>res_status = 304, res_payload = NoBody\<rparr>"
proof -
  have a: "req_verb upload_post = POST" "route_matches ''/upload'' (req_path upload_post)"
    by (simp_all add: upload_post_def route_matches_def strip_slash_def lower_def)
  have b: "req_verb plain_get = GET" "route_matches ''/'' (req_path plain_get)"
    "\<not> req_validators_fresh plain_get"
    by (simp_all add: plain_get_def conditional_get_def route_matches_def strip_slash_def
          lower_def)
  have c: "req_verb conditional_get = GET" "route_matches ''/'' (req_path conditional_get)"
    "req_validators_fresh conditional_get"
    by (simp_all add: conditional_get_def route_matches_def strip_slash_def lower_def)
  from routes_respond [of upload_post] routes_respond [of plain_get]
    routes_respond [of conditional_get] a b c
  show ?thesis by simp
qed

end
